theory Spec2Isabelle
  imports Main "HOL-Library.AList"
begin

section \<open>Python values used by \<open>distconfigs/manager.py\<close>\<close>

text \<open>
  The exceptions that the modelled functions of \<open>manager.py\<close> can raise. A function that
  may raise returns \<open>error + 'a\<close>, with \<open>Inl\<close> for the exception.
\<close>

datatype error =
    ValueError
  | TypeError
  | AttributeError
  | IndexError
  | FileExistsError
  | FileNotFoundError
  | IsADirectoryError
  | NotADirectoryError
  | DecodeError

subsection \<open>\<open>str.split\<close>\<close>

text \<open>
  \<open>find_sep sep s\<close> looks for the leftmost occurrence of \<open>sep\<close> in \<open>s\<close> and returns
  the text before it and the text after it.
\<close>

fun find_sep :: "string \<Rightarrow> string \<Rightarrow> (string \<times> string) option" where
  "find_sep sep [] = (if sep = [] then Some ([], []) else None)"
| "find_sep sep (c # cs) =
     (if take (length sep) (c # cs) = sep then Some ([], drop (length sep) (c # cs))
      else (case find_sep sep cs of
              None \<Rightarrow> None
            | Some (a, b) \<Rightarrow> Some (c # a, b)))"

text \<open>
  \<open>s.split(sep)\<close> for a separator string: the pieces between the non-overlapping
  occurrences of \<open>sep\<close>, scanned from the left. Python raises on an empty separator;
  every call of \<open>manager.py\<close> passes a non-empty literal, and the model returns \<open>[s]\<close>
  for the empty one.
\<close>

function split :: "string \<Rightarrow> string \<Rightarrow> string list" where
  "split sep s =
     (if sep = [] then [s]
      else (case find_sep sep s of
              None \<Rightarrow> [s]
            | Some (a, b) \<Rightarrow> a # split sep b))"
  by pat_completeness auto
termination
proof (relation "measure (\<lambda>(sep, s). length s)")
  show "wf (measure (\<lambda>(sep, s). length s))" by simp
next
  fix sep s :: string and x a b
  assume sep: "sep \<noteq> []" and found: "find_sep sep s = Some x" and x: "(a, b) = x"
  have shorter: "find_sep sep t = Some (u, v) \<Longrightarrow> length v < length t" for t u v
  proof (induction t arbitrary: u v)
    case Nil
    with sep show ?case by simp
  next
    case (Cons c cs)
    show ?case
    proof (cases "take (length sep) (c # cs) = sep")
      case True
      with Cons.prems sep show ?thesis by (cases sep) auto
    next
      case False
      with Cons.prems obtain u' where "find_sep sep cs = Some (u', v)"
        by (auto split: option.splits)
      from Cons.IH [OF this] show ?thesis by simp
    qed
  qed
  from found x have "find_sep sep s = Some (a, b)" by simp
  from shorter [OF this] show "((sep, b), (sep, s)) \<in> measure (\<lambda>(sep, s). length s)"
    by simp
qed

declare split.simps [simp del]

text \<open>\<open>s.split(sep, maxsplit=n)\<close>: at most \<open>n\<close> splits, the rest of the string is the last piece.\<close>

fun split_max :: "string \<Rightarrow> nat \<Rightarrow> string \<Rightarrow> string list" where
  "split_max sep 0 s = [s]"
| "split_max sep (Suc n) s =
     (case find_sep sep s of
        None \<Rightarrow> [s]
      | Some (a, b) \<Rightarrow> a # split_max sep n b)"

section \<open>\<open>_parse_connector_url\<close>\<close>

text \<open>
  \<^verbatim>\<open>
  def _parse_connector_url(url=None):
      host = port = endpoint = None
      if url:
          url_without_protocol = url.split("//")[-1]
          url_parts = url_without_protocol.split("/", maxsplit=1)
          host, port = url_parts[0].split(":")
          endpoint = ""
          if len(url_parts) > 1:
              endpoint = url_parts[1]
      return host, port, endpoint
  \<close>
  \<open>if url\<close> is false for \<open>None\<close> and for the empty string. The tuple assignment
  \<open>host, port = ...\<close> raises \<open>ValueError\<close> unless the list has exactly two elements.
  \<open>split\<close> and \<open>split_max\<close> never return the empty list, so \<open>last\<close> and \<open>hd\<close> read a
  defined element.
\<close>

type_synonym host_port_endpoint = "string option \<times> string option \<times> string option"


definition parse_connector_url :: "string option \<Rightarrow> error + host_port_endpoint" where
  "parse_connector_url url =
     (case url of
        None \<Rightarrow> Inr (None, None, None)
      | Some u \<Rightarrow>
          if u = [] then Inr (None, None, None)
          else
            let url_without_protocol = last (split ''//'' u);
                url_parts = split_max ''/'' 1 url_without_protocol
            in (case split '':'' (hd url_parts) of
                  [host, port] \<Rightarrow>
                    Inr (Some host, Some port,
                         Some (if length url_parts > 1 then url_parts ! 1 else []))
                | _ \<Rightarrow> Inl ValueError))"

section \<open>Paths and the file system\<close>

text \<open>
  A \<open>pathlib.Path\<close> on a POSIX system: whether it starts at the root, and its components.
  \<open>Path(s)\<close> drops empty components and \<open>.\<close> components. (Python keeps exactly two
  leading slashes as a root of its own; the model reads them as one.)
\<close>

datatype PurePath = PurePath (anchored: bool) (components: "string list")

text \<open>An argument annotated \<open>Union[str, Path]\<close>.\<close>

datatype path_like = Str string | P PurePath

definition Path_of_str :: "string \<Rightarrow> PurePath" where
  "Path_of_str s =
     PurePath (take 1 s = ''/'') (filter (\<lambda>c. c \<noteq> [] \<and> c \<noteq> ''.'') (split ''/'' s))"

fun Path :: "path_like \<Rightarrow> PurePath" where
  "Path (Str s) = Path_of_str s"
| "Path (P p) = p"

text \<open>\<open>p / s\<close> for a string \<open>s\<close>: an absolute right operand replaces the left one.\<close>

definition joinpath :: "PurePath \<Rightarrow> string \<Rightarrow> PurePath" where
  "joinpath p s =
     (let q = Path_of_str s
      in if anchored q then q else PurePath (anchored p) (components p @ components q))"

text \<open>\<open>p.name\<close>: the last component, or the empty string when there is none.\<close>

definition path_name :: "PurePath \<Rightarrow> string" where
  "path_name p = (if components p = [] then [] else last (components p))"

text \<open>
  \<open>p.parents[i]\<close>: \<open>p\<close> without its last \<open>i + 1\<close> components; \<open>IndexError\<close> when \<open>p\<close> has
  no more than \<open>i\<close> components.
\<close>

definition parents_nth :: "PurePath \<Rightarrow> nat \<Rightarrow> error + PurePath" where
  "parents_nth p i =
     (if i < length (components p)
      then Inr (PurePath (anchored p) (take (length (components p) - 1 - i) (components p)))
      else Inl IndexError)"

text \<open>
  The file system maps a path to what is there: a file with its text, or a directory.
  A path that is a directory exists, by construction.
\<close>

datatype node = File string | Dir

type_synonym filesystem = "PurePath \<Rightarrow> node option"

definition path_exists :: "filesystem \<Rightarrow> PurePath \<Rightarrow> bool" where
  "path_exists fs p = (fs p \<noteq> None)"

definition is_dir :: "filesystem \<Rightarrow> PurePath \<Rightarrow> bool" where
  "is_dir fs p = (fs p = Some Dir)"

text \<open>\<open>open(path, "r")\<close> followed by reading the whole file.\<close>

definition read_text :: "filesystem \<Rightarrow> PurePath \<Rightarrow> error + string" where
  "read_text fs p =
     (case fs p of
        None \<Rightarrow> Inl FileNotFoundError
      | Some Dir \<Rightarrow> Inl IsADirectoryError
      | Some (File txt) \<Rightarrow> Inr txt)"

text \<open>
  \<open>open(path, mode)\<close> for the two writing modes, followed by writing \<open>txt\<close>.
  Mode \<open>"x"\<close> is exclusive creation: it raises \<open>FileExistsError\<close> when the path exists.
  Mode \<open>"w"\<close> creates the file or truncates the one that is there. A new file needs its
  parent directory. An \<open>open\<close> that raises leaves the file system as it was.
\<close>

datatype open_mode = ModeX | ModeW

definition write_text :: "open_mode \<Rightarrow> PurePath \<Rightarrow> string \<Rightarrow> filesystem \<Rightarrow> error + filesystem" where
  "write_text m p txt fs =
     (case fs p of
        Some n \<Rightarrow>
          (if m = ModeX then Inl FileExistsError
           else (case n of Dir \<Rightarrow> Inl IsADirectoryError | File old \<Rightarrow> Inr (fs(p \<mapsto> File txt))))
      | None \<Rightarrow>
          (case fs (PurePath (anchored p) (butlast (components p))) of
             Some Dir \<Rightarrow> Inr (fs(p \<mapsto> File txt))
           | Some (File other) \<Rightarrow> Inl NotADirectoryError
           | None \<Rightarrow> Inl FileNotFoundError))"

section \<open>\<open>BaseDreamConfig\<close>, \<open>JsonDreamConfig\<close>, \<open>YmlDreamConfig\<close>\<close>

text \<open>
  What \<open>json.load\<close> and \<open>yaml.load\<close> return: the language-native structured value.
  A mapping keeps its insertion order and has each key once.
\<close>

datatype raw =
    RNone
  | RBool bool
  | RInt int
  | RStr string
  | RList "raw list"
  | RDict "(string \<times> raw) list"

text \<open>
  \<^verbatim>\<open>
  def load(path):
      with open(path, "r", encoding="utf-8") as f:
          data = json.load(f)          # yaml.load(f, yaml.FullLoader) in YmlDreamConfig
      return data
  \<close>
  The decoder of the format is the parameter \<open>decode\<close>; \<open>None\<close> is malformed text.
\<close>

definition load :: "(string \<Rightarrow> raw option) \<Rightarrow> path_like \<Rightarrow> filesystem \<Rightarrow> error + raw" where
  "load decode path fs =
     (case read_text fs (Path path) of
        Inl e \<Rightarrow> Inl e
      | Inr txt \<Rightarrow> (case decode txt of None \<Rightarrow> Inl DecodeError | Some data \<Rightarrow> Inr data))"

text \<open>
  \<^verbatim>\<open>
  def dump(data, path, overwrite=False):
      mode = "x" if overwrite else "w"
      with open(path, mode, encoding="utf-8") as f:
          json.dump(data, f, indent=4)  # yaml.dump(data, f) in YmlDreamConfig
      return path
  \<close>
  \<open>JsonDreamConfig.dump\<close> and \<open>YmlDreamConfig.dump\<close> differ in the encoder only, which is
  the parameter \<open>encode\<close>. The result is the path and the file system after the call.
\<close>

definition dump ::
  "(raw \<Rightarrow> string) \<Rightarrow> raw \<Rightarrow> path_like \<Rightarrow> bool \<Rightarrow> filesystem \<Rightarrow> error + (path_like \<times> filesystem)"
where
  "dump encode data path overwrite fs =
     (let m = (if overwrite then ModeX else ModeW)
      in (case write_text m (Path path) (encode data) fs of
            Inl e \<Rightarrow> Inl e
          | Inr fs' \<Rightarrow> Inr (path, fs')))"

text \<open>
  The call \<open>f(**data)\<close> of a function with the one parameter \<open>obj\<close> (after \<open>cls\<close>), as
  \<open>GENERIC_MODEL.parse_obj\<close> is: Python binds the keys of \<open>data\<close> to parameter names, so the
  call reaches \<open>f\<close> only when \<open>data\<close> is a mapping whose one key is \<open>obj\<close>, and raises
  \<open>TypeError\<close> otherwise (not a mapping, an unexpected keyword, \<open>obj\<close> missing).
\<close>

definition call_with_kwargs :: "(raw \<Rightarrow> error + 'c) \<Rightarrow> raw \<Rightarrow> error + 'c" where
  "call_with_kwargs f data =
     (case data of
        RDict [(k, v)] \<Rightarrow> if k = ''obj'' then f v else Inl TypeError
      | _ \<Rightarrow> Inl TypeError)"

text \<open>
  \<^verbatim>\<open>
  def from_path(cls, path):
      data = cls.load(path)
      config = cls.GENERIC_MODEL.parse_obj(**data)
      return cls(config)

  def from_dist(cls, dist_path):
      data = cls.load(Path(dist_path).resolve() / cls.DEFAULT_FILE_NAME)
      config = cls.GENERIC_MODEL.parse_obj(data)
      return cls(config)
  \<close>
  The validation \<open>GENERIC_MODEL.parse_obj\<close> of the schema class is the parameter
  \<open>parse_obj\<close>, \<open>Path.resolve\<close> is the parameter \<open>resolve\<close>, and the wrapper object
  \<open>cls(config)\<close> is modelled by its \<open>_config\<close>.
\<close>

definition from_path ::
  "(string \<Rightarrow> raw option) \<Rightarrow> (raw \<Rightarrow> error + 'c) \<Rightarrow> path_like \<Rightarrow> filesystem \<Rightarrow> error + 'c"
where
  "from_path decode parse_obj path fs =
     (case load decode path fs of
        Inl e \<Rightarrow> Inl e
      | Inr data \<Rightarrow> call_with_kwargs parse_obj data)"

definition from_dist ::
  "(string \<Rightarrow> raw option) \<Rightarrow> (raw \<Rightarrow> error + 'c) \<Rightarrow> (PurePath \<Rightarrow> PurePath) \<Rightarrow> string
     \<Rightarrow> path_like \<Rightarrow> filesystem \<Rightarrow> error + 'c"
where
  "from_dist decode parse_obj resolve DEFAULT_FILE_NAME dist_path fs =
     (case load decode (P (joinpath (resolve (Path dist_path)) DEFAULT_FILE_NAME)) fs of
        Inl e \<Rightarrow> Inl e
      | Inr data \<Rightarrow> parse_obj data)"

text \<open>
  \<^verbatim>\<open>
  def to_path(self, path, overwrite=False):
      config = json.loads(self._config.json(exclude_none=True))
      return self.dump(config, path, overwrite)

  def to_dist(self, dist_path, overwrite=False):
      config = json.loads(self._config.json(exclude_none=True))
      path = Path(dist_path) / self.DEFAULT_FILE_NAME
      return self.dump(config, path, overwrite)
  \<close>
  \<open>to_raw\<close> is the serialisation of the typed document to a raw value.
\<close>

definition to_path ::
  "('c \<Rightarrow> raw) \<Rightarrow> (raw \<Rightarrow> string) \<Rightarrow> 'c \<Rightarrow> path_like \<Rightarrow> bool \<Rightarrow> filesystem
     \<Rightarrow> error + (path_like \<times> filesystem)"
where
  "to_path to_raw encode self path overwrite fs =
     (let config = to_raw self in dump encode config path overwrite fs)"

definition to_dist ::
  "('c \<Rightarrow> raw) \<Rightarrow> (raw \<Rightarrow> string) \<Rightarrow> string \<Rightarrow> 'c \<Rightarrow> path_like \<Rightarrow> bool \<Rightarrow> filesystem
     \<Rightarrow> error + (path_like \<times> filesystem)"
where
  "to_dist to_raw encode DEFAULT_FILE_NAME self dist_path overwrite fs =
     (let config = to_raw self;
          path = P (joinpath (Path dist_path) DEFAULT_FILE_NAME)
      in dump encode config path overwrite fs)"

text \<open>
  A statement that may raise, followed by the rest of the function: the exception ends
  the function, a value is passed on.
\<close>

definition raising :: "error + 'a \<Rightarrow> ('a \<Rightarrow> error + 'b) \<Rightarrow> error + 'b" where
  "raising m f = (case m of Inl e \<Rightarrow> Inl e | Inr x \<Rightarrow> f x)"

text \<open>\<open>x or default\<close> for an optional list: \<open>None\<close> and the empty list are both false.\<close>

definition or_default :: "'a list option \<Rightarrow> 'a list \<Rightarrow> 'a list" where
  "or_default xs d = (case xs of None \<Rightarrow> d | Some l \<Rightarrow> if l = [] then d else l)"

text \<open>\<open>{**a, **b}\<close>: the entries of \<open>a\<close>, then each entry of \<open>b\<close> assigned in order.\<close>

definition dict_merge :: "('k \<times> 'v) list \<Rightarrow> ('k \<times> 'v) list \<Rightarrow> ('k \<times> 'v) list" where
  "dict_merge a b = fold (\<lambda>(k, v) d. AList.update k v d) b a"

subsection \<open>Compose documents\<close>

text \<open>
  A Python \<open>dict\<close> is an association list in insertion order, and \<open>d[k] = v\<close> is
  \<open>AList.update k v d\<close>: it replaces the entry of \<open>k\<close> where it stands or appends a new
  one.
\<close>

text \<open>
  Modelled from the spec: the classes \<open>DeploymentDefinition\<close>, \<open>ComposeContainer\<close>,
  \<open>ComposeDevContainer\<close>, \<open>ComposeLocalContainer\<close> and the four compose documents are
  declared in \<open>generics.py\<close>, which is missing. A compose document "contains \<open>version\<close>
  and \<open>services\<close>: mapping name \<rightarrow> container descriptor", the four variants have one
  shape, and a container descriptor carries "\<open>ports\<close>, ... \<open>deploy\<close> block with
  \<open>mode\<close>/\<open>replicas\<close>" among fields that otherwise pass through unchanged. These are the
  fields that \<open>manager.py\<close> reads and assigns; all other fields of a container are kept
  together in \<open>container_fields\<close>. \<open>parse_obj\<close> of a mapping built from the fields of a
  typed document returns the document with these fields.
\<close>

record DeploymentDefinition =
  mode :: string
  replicas :: int

record ComposeContainer =
  ports :: "string list option"
  deploy :: "DeploymentDefinition option"
  container_fields :: "(string \<times> raw) list"

record ComposeConfig =
  version :: string
  services :: "(string \<times> ComposeContainer) list"

text \<open>
  \<^verbatim>\<open>
  def filter_services(self, include_names=None, exclude_names=None, inplace=False):
      include_names = include_names or self._config.services.keys()
      exclude_names = exclude_names or []
      model_dict = {
          "version": self._config.version,
          "services": {k: v for k, v in self._config.services.items()
                       if k in include_names and k not in exclude_names},
      }
      config = self.GENERIC_MODEL.parse_obj(model_dict)
      if inplace:
          self._config = config
          value = self
      else:
          value = self.__class__(config)
      return value
  \<close>
  The result is the pair of \<open>self\<close> after the call and the returned value.
\<close>

definition YmlDreamConfig_filter_services ::
  "ComposeConfig \<Rightarrow> string list option \<Rightarrow> string list option \<Rightarrow> bool
     \<Rightarrow> ComposeConfig \<times> ComposeConfig"
where
  "YmlDreamConfig_filter_services self include_names exclude_names inplace =
     (let include_names' = or_default include_names (map fst (services self));
          exclude_names' = or_default exclude_names [];
          config = \<lparr>version = version self,
                    services = filter (\<lambda>(k, v). k \<in> set include_names' \<and> k \<notin> set exclude_names')
                                 (services self)\<rparr>
      in if inplace then (config, config) else (self, config))"

text \<open>
  \<^verbatim>\<open>
  def add_service(self, name, definition, inplace=False):
      services = self._config.copy().services
      services[name] = definition
      model_dict = {"version": self._config.version, "services": services}
      config = self.GENERIC_MODEL.parse_obj(model_dict)
      if inplace:
          self._config = config
          value = self
      else:
          value = self.__class__(config)
      return value
  \<close>
  \<open>copy()\<close> is shallow, so the assignment also reaches the \<open>services\<close> of \<open>self\<close> when
  \<open>inplace\<close> is false.
\<close>

definition YmlDreamConfig_add_service ::
  "ComposeConfig \<Rightarrow> string \<Rightarrow> ComposeContainer \<Rightarrow> bool \<Rightarrow> ComposeConfig \<times> ComposeConfig"
where
  "YmlDreamConfig_add_service self name definition inplace =
     (let services' = AList.update name definition (services self);
          config = \<lparr>version = version self, services = services'\<rparr>
      in if inplace then (config, config) else (self\<lparr>services := services'\<rparr>, config))"

subsection \<open>The pipeline document\<close>

text \<open>
  Modelled from the spec: the classes \<open>PipelineConfConnector\<close>, \<open>PipelineConfService\<close>,
  \<open>PipelineConfServiceList\<close> and \<open>PipelineConf\<close> are declared in \<open>generics.py\<close>, which is
  missing. The pipeline document contains "\<open>connectors\<close>: mapping name \<rightarrow> connector
  descriptor (has optional \<open>url\<close>)" and \<open>services\<close> partitioned into the three optional
  singletons and six mappings "name \<rightarrow> service descriptor", where a service descriptor
  "either embeds a connector reference (with \<open>.connector.url\<close>) or is itself identified
  by its name". Of a connector \<open>manager.py\<close> reads \<open>url\<close>; of a service it reads
  \<open>connector\<close>, where \<open>v.connector.url\<close> raises \<open>AttributeError\<close> for a \<open>connector\<close>
  that has no such attribute: that case is \<open>None\<close>. The other fields are kept in
  \<open>connector_fields\<close> and \<open>service_fields\<close>. The field \<open>services\<close> of the pipeline
  document is \<open>pipeline_services\<close> here, apart from the \<open>services\<close> of a compose document.
\<close>

record PipelineConfConnector =
  url :: "string option"
  connector_fields :: "(string \<times> raw) list"

record PipelineConfService =
  connector :: "PipelineConfConnector option"
  service_fields :: "(string \<times> raw) list"

record PipelineConfServiceList =
  last_chance_service :: "PipelineConfService option"
  timeout_service :: "PipelineConfService option"
  bot_annotator_selector :: "PipelineConfService option"
  post_annotators :: "(string \<times> PipelineConfService) list"
  annotators :: "(string \<times> PipelineConfService) list"
  skill_selectors :: "(string \<times> PipelineConfService) list"
  skills :: "(string \<times> PipelineConfService) list"
  post_skill_selector_annotators :: "(string \<times> PipelineConfService) list"
  response_selectors :: "(string \<times> PipelineConfService) list"

record PipelineConf =
  connectors :: "(string \<times> PipelineConfConnector) list"
  pipeline_services :: PipelineConfServiceList

text \<open>\<open>if url:\<close> holds for a string that is neither \<open>None\<close> nor empty.\<close>

definition truthy :: "string option \<Rightarrow> bool" where
  "truthy s = (case s of None \<Rightarrow> False | Some t \<Rightarrow> t \<noteq> [])"

text \<open>\<open>host in names and host not in exclude_names\<close>, for lists of strings.\<close>

definition host_selected :: "string option \<Rightarrow> string list \<Rightarrow> string list \<Rightarrow> bool" where
  "host_selected host names exclude_names =
     (case host of None \<Rightarrow> False | Some h \<Rightarrow> h \<in> set names \<and> h \<notin> set exclude_names)"

text \<open>\<open>k.replace("_", "-")\<close>.\<close>

definition replace_underscores :: "string \<Rightarrow> string" where
  "replace_underscores k = map (\<lambda>c. if c = CHR ''_'' then CHR ''-'' else c) k"

text \<open>
  \<^verbatim>\<open>
  def _filter_connectors_by_name(original_dict, names, exclude_names):
      filtered_dict = {}
      for k, v in original_dict.items():
          if v.url:
              host, port, endpoint = _parse_connector_url(v.url)
              if host in names and host not in exclude_names:
                  filtered_dict[k] = v
      return filtered_dict
  \<close>
  The loop is a recursion over the items with \<open>filtered_dict\<close> as accumulator.
\<close>

fun connectors_loop ::
  "(string \<times> PipelineConfConnector) list \<Rightarrow> string list \<Rightarrow> string list
     \<Rightarrow> (string \<times> PipelineConfConnector) list \<Rightarrow> error + (string \<times> PipelineConfConnector) list"
where
  "connectors_loop [] names exclude_names filtered_dict = Inr filtered_dict"
| "connectors_loop ((k, v) # rest) names exclude_names filtered_dict =
     (if truthy (url v) then
        (case parse_connector_url (url v) of
           Inl e \<Rightarrow> Inl e
         | Inr (host, port, endpoint) \<Rightarrow>
             connectors_loop rest names exclude_names
               (if host_selected host names exclude_names
                then AList.update k v filtered_dict else filtered_dict))
      else connectors_loop rest names exclude_names filtered_dict)"

definition filter_connectors_by_name ::
  "(string \<times> PipelineConfConnector) list \<Rightarrow> string list \<Rightarrow> string list
     \<Rightarrow> error + (string \<times> PipelineConfConnector) list"
where
  "filter_connectors_by_name original_dict names exclude_names =
     connectors_loop original_dict names exclude_names []"

text \<open>
  \<^verbatim>\<open>
  def _filter_services_by_name(original_dict, names, exclude_names):
      filtered_dict = {}
      for k, v in original_dict.items():
          try:
              url = v.connector.url
          except AttributeError:
              if k.replace("_", "-") in names:
                  filtered_dict[k] = v
          else:
              if url:
                  host, port, endpoint = _parse_connector_url(url)
                  if host in names and host not in exclude_names:
                      filtered_dict[k] = v
      return filtered_dict
  \<close>
\<close>

fun services_loop ::
  "(string \<times> PipelineConfService) list \<Rightarrow> string list \<Rightarrow> string list
     \<Rightarrow> (string \<times> PipelineConfService) list \<Rightarrow> error + (string \<times> PipelineConfService) list"
where
  "services_loop [] names exclude_names filtered_dict = Inr filtered_dict"
| "services_loop ((k, v) # rest) names exclude_names filtered_dict =
     (case connector v of
        None \<Rightarrow>
          services_loop rest names exclude_names
            (if replace_underscores k \<in> set names
             then AList.update k v filtered_dict else filtered_dict)
      | Some c \<Rightarrow>
          (if truthy (url c) then
             (case parse_connector_url (url c) of
                Inl e \<Rightarrow> Inl e
              | Inr (host, port, endpoint) \<Rightarrow>
                  services_loop rest names exclude_names
                    (if host_selected host names exclude_names
                     then AList.update k v filtered_dict else filtered_dict))
           else services_loop rest names exclude_names filtered_dict))"

definition filter_services_by_name ::
  "(string \<times> PipelineConfService) list \<Rightarrow> string list \<Rightarrow> string list
     \<Rightarrow> error + (string \<times> PipelineConfService) list"
where
  "filter_services_by_name original_dict names exclude_names =
     services_loop original_dict names exclude_names []"

text \<open>
  \<open>DreamPipeline.filter_services\<close>: the connectors and the six categories are filtered in
  the order of the source, the three singleton fields are passed to
  \<open>PipelineConfServiceList(...)\<close> as they are, and \<open>parse_obj\<close> receives the typed parts
  and returns the document made of them. The result is the pair of \<open>self\<close> after the
  call and the returned value.
\<close>

definition DreamPipeline_filter_services ::
  "PipelineConf \<Rightarrow> string list option \<Rightarrow> string list option \<Rightarrow> bool
     \<Rightarrow> error + (PipelineConf \<times> PipelineConf)"
where
  "DreamPipeline_filter_services self include_names exclude_names inplace =
     (let include_names' = or_default include_names [];
          exclude_names' = or_default exclude_names [];
          svc = pipeline_services self
      in
      raising (filter_connectors_by_name (connectors self) include_names' exclude_names')
        (\<lambda>connectors'.
      raising (filter_services_by_name (post_annotators svc) include_names' exclude_names')
        (\<lambda>post_annotators'.
      raising (filter_services_by_name (annotators svc) include_names' exclude_names')
        (\<lambda>annotators'.
      raising (filter_services_by_name (skill_selectors svc) include_names' exclude_names')
        (\<lambda>skill_selectors'.
      raising (filter_services_by_name (skills svc) include_names' exclude_names')
        (\<lambda>skills'.
      raising (filter_services_by_name (post_skill_selector_annotators svc)
                 include_names' exclude_names')
        (\<lambda>post_skill_selector_annotators'.
      raising (filter_services_by_name (response_selectors svc) include_names' exclude_names')
        (\<lambda>response_selectors'.
      (let services' =
             \<lparr>last_chance_service = last_chance_service svc,
              timeout_service = timeout_service svc,
              bot_annotator_selector = bot_annotator_selector svc,
              post_annotators = post_annotators',
              annotators = annotators',
              skill_selectors = skill_selectors',
              skills = skills',
              post_skill_selector_annotators = post_skill_selector_annotators',
              response_selectors = response_selectors'\<rparr>;
           config = \<lparr>connectors = connectors', pipeline_services = services'\<rparr>
       in Inr (if inplace then (config, config) else (self, config)))))))))))"

section \<open>\<open>DreamDist\<close>\<close>

record DreamDist =
  dist_path :: PurePath
  name :: string
  dream_root :: path_like
  pipeline_conf :: "PipelineConf option"
  compose_override :: "ComposeConfig option"
  compose_dev :: "ComposeConfig option"
  compose_proxy :: "ComposeConfig option"
  compose_local :: "ComposeConfig option"

text \<open>
  \<^verbatim>\<open>
  def resolve_dist_path(name, dream_root):
      return Path(dream_root) / "assistant_dists" / name

  def resolve_name_and_dream_root(path):
      path = Path(path)
      return path.name, path.parents[1]
  \<close>
\<close>

definition resolve_dist_path :: "string \<Rightarrow> path_like \<Rightarrow> PurePath" where
  "resolve_dist_path nm root = joinpath (joinpath (Path root) ''assistant_dists'') nm"

definition resolve_name_and_dream_root :: "path_like \<Rightarrow> error + (string \<times> PurePath)" where
  "resolve_name_and_dream_root path =
     (let p = Path path
      in (case parents_nth p 1 of Inl e \<Rightarrow> Inl e | Inr r \<Rightarrow> Inr (path_name p, r)))"

text \<open>
  \<^verbatim>\<open>
  def resolve_all_paths(dist_path=None, name=None, dream_root=None):
      if dist_path:
          name, dream_root = DreamDist.resolve_name_and_dream_root(dist_path)
      elif name and dream_root:
          dist_path = DreamDist.resolve_dist_path(name, dream_root)
      else:
          raise ValueError("Provide either dist_path or name and dream_root")

      if not dist_path.exists() and dist_path.is_dir():
          raise NotADirectoryError(f"{dist_path} is not a Dream distribution")

      return dist_path, name, dream_root
  \<close>
  A \<open>Path\<close> object is always true, a string is true when it is not empty. In the first
  branch \<open>dist_path\<close> stays the argument as it was passed; a string has no method
  \<open>exists\<close>, which is an \<open>AttributeError\<close>. In \<open>not a and b\<close> the \<open>not\<close> binds first.
\<close>

definition path_like_truthy :: "path_like option \<Rightarrow> bool" where
  "path_like_truthy x = (case x of None \<Rightarrow> False | Some (Str s) \<Rightarrow> s \<noteq> [] | Some (P p) \<Rightarrow> True)"

definition check_dist_path ::
  "filesystem \<Rightarrow> path_like \<times> string option \<times> path_like option
     \<Rightarrow> error + (path_like \<times> string option \<times> path_like option)"
where
  "check_dist_path fs r =
     (case fst r of
        Str s \<Rightarrow> Inl AttributeError
      | P p \<Rightarrow> if \<not> path_exists fs p \<and> is_dir fs p then Inl NotADirectoryError else Inr r)"

definition resolve_all_paths ::
  "filesystem \<Rightarrow> path_like option \<Rightarrow> string option \<Rightarrow> path_like option
     \<Rightarrow> error + (path_like \<times> string option \<times> path_like option)"
where
  "resolve_all_paths fs dist_path_arg name_arg dream_root_arg =
     (if path_like_truthy dist_path_arg then
        (case resolve_name_and_dream_root (the dist_path_arg) of
           Inl e \<Rightarrow> Inl e
         | Inr (nm, root) \<Rightarrow> check_dist_path fs (the dist_path_arg, Some nm, Some (P root)))
      else if truthy name_arg \<and> path_like_truthy dream_root_arg then
        check_dist_path fs
          (P (resolve_dist_path (the name_arg) (the dream_root_arg)), name_arg, dream_root_arg)
      else Inl ValueError)"

text \<open>
  \<^verbatim>\<open>
  def create_local_yml(self, services, drop_ports=True, single_replica=True):
      services = list(services) + ["agent", "mongo"]
      dev_config_part = self.compose_dev.filter_services(services, inplace=False)
      proxy_config_part = self.compose_proxy.filter_services(
          exclude_names=services, inplace=False)
      local_config = DreamComposeLocal(
          ComposeLocal(services=proxy_config_part.config.services))
      all_config_parts = {**dev_config_part.config.services,
                          **proxy_config_part.config.services}
      for name, s in all_config_parts.items():
          if name in services:
              service = ComposeLocalContainer.parse_obj(s)
              if drop_ports:
                  service.ports = None
          else:
              service = s
          if single_replica:
              service.deploy = DeploymentDefinition(mode="replicated", replicas=1)
          local_config.add_service(name, service, inplace=True)
      return local_config.to_dist(self.dist_path)
  \<close>
  The name \<open>services\<close> is rebound in the first statement: every later use, the test
  \<open>name in services\<close> of the loop too, reads the extended list.
  \<open>ComposeLocalContainer.parse_obj\<close> is the parameter \<open>local_container\<close>, and the
  \<open>version\<close> that \<open>ComposeLocal(services=...)\<close> fills in is the parameter
  \<open>local_version\<close>. The statement \<open>service = s\<close> does not copy, so the later
  assignment of \<open>deploy\<close> also reaches the entry of \<open>all_config_parts\<close>; each entry is
  read once and the local document gets the assigned container, so the model passes
  the containers by value. \<open>local_yml_service\<close> is the container that one round of the
  loop computes, \<open>local_yml_step\<close> is the round, \<open>local_yml_config\<close> is the function up to
  the loop's end, \<open>create_local_yml\<close> the whole function; a missing dev
  or proxy document is the \<open>AttributeError\<close> of a method call on \<open>None\<close>.
\<close>

definition local_yml_service ::
  "(ComposeContainer \<Rightarrow> ComposeContainer) \<Rightarrow> string list \<Rightarrow> bool \<Rightarrow> bool
     \<Rightarrow> string \<Rightarrow> ComposeContainer \<Rightarrow> ComposeContainer"
where
  "local_yml_service local_container services' drop_ports single_replica nm s =
     (let service = (if nm \<in> set services'
                     then (let c = local_container s
                           in if drop_ports then c\<lparr>ports := None\<rparr> else c)
                     else s)
      in if single_replica
         then service\<lparr>deploy := Some \<lparr>mode = ''replicated'', replicas = 1\<rparr>\<rparr>
         else service)"

definition local_yml_step ::
  "(ComposeContainer \<Rightarrow> ComposeContainer) \<Rightarrow> string list \<Rightarrow> bool \<Rightarrow> bool
     \<Rightarrow> string \<times> ComposeContainer \<Rightarrow> ComposeConfig \<Rightarrow> ComposeConfig"
where
  "local_yml_step local_container services' drop_ports single_replica item local_config =
     fst (YmlDreamConfig_add_service local_config (fst item)
            (local_yml_service local_container services' drop_ports single_replica
               (fst item) (snd item))
            True)"

definition local_yml_config ::
  "(ComposeContainer \<Rightarrow> ComposeContainer) \<Rightarrow> string \<Rightarrow> ComposeConfig \<Rightarrow> ComposeConfig
     \<Rightarrow> string list \<Rightarrow> bool \<Rightarrow> bool \<Rightarrow> ComposeConfig"
where
  "local_yml_config local_container local_version dev proxy services_arg drop_ports single_replica =
     (let services' = services_arg @ [''agent'', ''mongo''];
          dev_config_part = snd (YmlDreamConfig_filter_services dev (Some services') None False);
          proxy_config_part = snd (YmlDreamConfig_filter_services proxy None (Some services') False);
          local_config = \<lparr>version = local_version, services = services proxy_config_part\<rparr>;
          all_config_parts = dict_merge (services dev_config_part) (services proxy_config_part)
      in fold (local_yml_step local_container services' drop_ports single_replica)
           all_config_parts local_config)"

definition create_local_yml ::
  "(ComposeContainer \<Rightarrow> ComposeContainer) \<Rightarrow> string \<Rightarrow> (ComposeConfig \<Rightarrow> raw) \<Rightarrow> (raw \<Rightarrow> string)
     \<Rightarrow> DreamDist \<Rightarrow> string list \<Rightarrow> bool \<Rightarrow> bool \<Rightarrow> filesystem
     \<Rightarrow> error + (path_like \<times> filesystem)"
where
  "create_local_yml local_container local_version to_raw encode self services_arg
       drop_ports single_replica fs =
     (case compose_dev self of
        None \<Rightarrow> Inl AttributeError
      | Some dev \<Rightarrow>
          (case compose_proxy self of
             None \<Rightarrow> Inl AttributeError
           | Some proxy \<Rightarrow>
               to_dist to_raw encode ''local.yml''
                 (local_yml_config local_container local_version dev proxy services_arg
                    drop_ports single_replica)
                 (P (dist_path self)) False fs))"

section \<open>Example documents\<close>

text \<open>
  A dev document with the services \<open>a\<close>, \<open>agent\<close>, \<open>mongo\<close>, a proxy document with the
  services \<open>a\<close>, \<open>b\<close>, \<open>agent\<close>, \<open>mongo\<close>, and two small pipelines: the concrete inputs at
  which the theorems below are instantiated.
\<close>

definition example_dev :: ComposeConfig where
  "example_dev = \<lparr>version = ''3.7'',
     services =
       [(''a'', \<lparr>ports = Some [''8001:8001''], deploy = None,
                 container_fields = [(''volumes'', RList [RStr ''./a:/src''])]\<rparr>),
        (''agent'', \<lparr>ports = Some [''4242:4242''], deploy = None, container_fields = []\<rparr>),
        (''mongo'', \<lparr>ports = Some [''27017:27017''], deploy = None, container_fields = []\<rparr>)]\<rparr>"

definition example_proxy :: ComposeConfig where
  "example_proxy = \<lparr>version = ''3.7'',
     services =
       [(''a'', \<lparr>ports = None, deploy = None, container_fields = [(''command'', RStr ''proxy a'')]\<rparr>),
        (''b'', \<lparr>ports = Some [''8002:8002''], deploy = None,
                 container_fields = [(''command'', RStr ''proxy b'')]\<rparr>),
        (''agent'', \<lparr>ports = None, deploy = None, container_fields = []\<rparr>),
        (''mongo'', \<lparr>ports = None, deploy = None, container_fields = []\<rparr>)]\<rparr>"

definition example_service :: "string \<Rightarrow> PipelineConfService" where
  "example_service u =
     \<lparr>connector = Some \<lparr>url = Some u, connector_fields = []\<rparr>, service_fields = []\<rparr>"

definition example_pipeline :: PipelineConf where
  "example_pipeline =
     \<lparr>connectors =
        [(''sentseg'', \<lparr>url = Some ''http://sentseg:8011/sentseg'', connector_fields = []\<rparr>)],
      pipeline_services =
        \<lparr>last_chance_service =
           Some \<lparr>connector = None, service_fields = [(''tags'', RList [RStr ''last_chance''])]\<rparr>,
         timeout_service =
           Some \<lparr>connector = None, service_fields = [(''tags'', RList [RStr ''timeout''])]\<rparr>,
         bot_annotator_selector = None,
         post_annotators = [],
         annotators = [(''sentseg'', example_service ''http://sentseg:8011/sentseg''),
                       (''ner'', example_service ''http://ner:8021/ner'')],
         skill_selectors = [(''rule_based_selector'', \<lparr>connector = None, service_fields = []\<rparr>)],
         skills = [(''dummy_skill'', \<lparr>connector = None, service_fields = []\<rparr>)],
         post_skill_selector_annotators = [],
         response_selectors = []\<rparr>\<rparr>"

definition example_unfiltered :: PipelineConf where
  "example_unfiltered =
     \<lparr>connectors = [],
      pipeline_services =
        \<lparr>last_chance_service = None, timeout_service = None, bot_annotator_selector = None,
         post_annotators = [], annotators = [], skill_selectors = [],
         skills = [(''my_skill'', \<lparr>connector = None, service_fields = []\<rparr>)],
         post_skill_selector_annotators = [], response_selectors = []\<rparr>\<rparr>"

section \<open>Properties\<close>

subsection \<open>The connector-URL parser\<close>

lemma split_nonempty: "split sep s \<noteq> []"
  by (subst split.simps) (auto split: option.splits)

lemma split_max_nonempty: "split_max sep n s \<noteq> []"
  by (cases n) (auto split: option.splits)




text \<open>
  C7. The three reference cases of the connector-URL parser:
  \<open>"http://annotator:8080/respond"\<close> gives \<open>("annotator", "8080", "respond")\<close>,
  \<open>"annotator:8080"\<close> gives \<open>("annotator", "8080", "")\<close>, and \<open>None\<close> gives
  \<open>(None, None, None)\<close>.
\<close>

theorem parse_connector_url_reference_cases:
  "parse_connector_url (Some ''http://annotator:8080/respond'')
     = Inr (Some ''annotator'', Some ''8080'', Some ''respond'')
   \<and> parse_connector_url (Some ''annotator:8080'')
     = Inr (Some ''annotator'', Some ''8080'', Some '''')
   \<and> parse_connector_url None = Inr (None, None, None)"
  by (simp add: parse_connector_url_def split.simps)




subsection \<open>Writing and loading documents\<close>

text \<open>
  C1. The write is to fail with an already-exists error when \<open>overwrite\<close> is false and the
  file exists, and to overwrite it when \<open>overwrite\<close> is true. \<open>dump\<close> chooses the modes the
  other way round: on an existing file \<open>overwrite=True\<close> opens with \<open>"x"\<close> and raises
  \<open>FileExistsError\<close>, and \<open>overwrite=False\<close> opens with \<open>"w"\<close> and replaces the content;
  \<open>to_path\<close> passes the flag on. Called twice on a fresh path in an existing directory,
  the second call with \<open>overwrite=True\<close> fails and the second call with
  \<open>overwrite=False\<close> succeeds.
\<close>

theorem dump_overwrite_flag_inverted:
  "dump encode data path True (fs(Path path \<mapsto> File old)) = Inl FileExistsError
   \<and> dump encode data path False (fs(Path path \<mapsto> File old))
       = Inr (path, fs(Path path \<mapsto> File (encode data)))
   \<and> to_path to_raw encode self path True (fs(Path path \<mapsto> File old)) = Inl FileExistsError
   \<and> to_path to_raw encode self path False (fs(Path path \<mapsto> File old))
       = Inr (path, fs(Path path \<mapsto> File (encode (to_raw self))))
   \<and> (case dump encode data (Str ''/d/dev.yml'') True [PurePath True [''d''] \<mapsto> Dir] of
        Inl e \<Rightarrow> False
      | Inr (p, fs') \<Rightarrow> dump encode data p True fs' = Inl FileExistsError)
   \<and> (case dump encode data (Str ''/d/dev.yml'') False [PurePath True [''d''] \<mapsto> Dir] of
        Inl e \<Rightarrow> False
      | Inr (p, fs') \<Rightarrow> dump encode data p False fs' = Inr (p, fs'))"
  by (simp add: dump_def to_path_def write_text_def Path_of_str_def split.simps)

lemma call_with_kwargs_TypeError:
  "map fst kvs \<noteq> [''obj''] \<Longrightarrow> call_with_kwargs f (RDict kvs) = Inl TypeError"
  by (auto simp: call_with_kwargs_def split: list.splits)

text \<open>
  Whatever the validation is, \<open>from_path\<close> raises \<open>TypeError\<close> on every file whose content
  is a mapping with keys other than the single key \<open>obj\<close>.
\<close>

lemma from_path_TypeError:
  assumes "load decode path fs = Inr (RDict kvs)" and "map fst kvs \<noteq> [''obj'']"
  shows "from_path decode parse_obj path fs = Inl TypeError"
  using assms by (simp add: from_path_def call_with_kwargs_TypeError)

text \<open>
  C5. \<open>from_path\<close> is to load, validate and return the typed document, the same one as
  \<open>from_dist\<close> for the same content. On the file \<open>/dream/assistant_dists/d/dev.yml\<close> with
  the content \<open>{version: 3.7, services: {}}\<close>, \<open>from_dist\<close> returns what the validation
  returns for the loaded mapping, and \<open>from_path\<close> raises \<open>TypeError\<close>: it passes the
  mapping as keyword arguments (\<open>parse_obj(**data)\<close>).
\<close>

theorem from_path_TypeError_where_from_dist_loads:
  "from_path
     (\<lambda>c. if c = ''{version: 3.7, services: {}}''
          then Some (RDict [(''version'', RStr ''3.7''), (''services'', RDict [])]) else None)
     parse_obj (Str ''/dream/assistant_dists/d/dev.yml'')
     [PurePath True [''dream'', ''assistant_dists'', ''d'', ''dev.yml'']
        \<mapsto> File ''{version: 3.7, services: {}}'']
     = Inl TypeError
   \<and> from_dist
     (\<lambda>c. if c = ''{version: 3.7, services: {}}''
          then Some (RDict [(''version'', RStr ''3.7''), (''services'', RDict [])]) else None)
     parse_obj (\<lambda>p. p) ''dev.yml'' (Str ''/dream/assistant_dists/d'')
     [PurePath True [''dream'', ''assistant_dists'', ''d'', ''dev.yml'']
        \<mapsto> File ''{version: 3.7, services: {}}'']
     = parse_obj (RDict [(''version'', RStr ''3.7''), (''services'', RDict [])])"
  by (simp add: from_path_def from_dist_def load_def read_text_def call_with_kwargs_def
        Path_of_str_def joinpath_def split.simps)

subsection \<open>Filtering a compose document\<close>

lemma or_default_simps:
  "or_default None d = d" "or_default (Some []) d = d" "or_default (Some d) d = d"
  by (simp_all add: or_default_def)

lemma filter_all_keys:
  "filter (\<lambda>(k, v). k \<in> set (map fst xs) \<and> Q k) xs = filter (\<lambda>(k, v). Q k) xs"
  by (rule filter_cong) force+

text \<open>
  C10. For a compose document, \<open>filter_services\<close> with \<open>include_names\<close> equal to \<open>None\<close> or
  to the empty list is the same as passing the list of all service names of the
  document: the result keeps every service that is not in \<open>exclude_names\<close>, and the
  version.
\<close>

theorem filter_services_default_include:
  "YmlDreamConfig_filter_services cfg None exclude_names inplace
     = YmlDreamConfig_filter_services cfg (Some (map fst (services cfg))) exclude_names inplace
   \<and> YmlDreamConfig_filter_services cfg (Some []) exclude_names inplace
     = YmlDreamConfig_filter_services cfg (Some (map fst (services cfg))) exclude_names inplace
   \<and> services (snd (YmlDreamConfig_filter_services cfg None exclude_names inplace))
     = filter (\<lambda>(k, v). k \<notin> set (or_default exclude_names [])) (services cfg)
   \<and> services (snd (YmlDreamConfig_filter_services cfg (Some []) exclude_names inplace))
     = filter (\<lambda>(k, v). k \<notin> set (or_default exclude_names [])) (services cfg)
   \<and> version (snd (YmlDreamConfig_filter_services cfg None exclude_names inplace)) = version cfg"
  by (simp add: YmlDreamConfig_filter_services_def or_default_simps Let_def filter_all_keys
        del: set_map)

subsection \<open>Filtering the pipeline\<close>

text \<open>
  A service without a connector whose normalised name is in \<open>names\<close> is kept, whatever
  \<open>exclude_names\<close> is.
\<close>

lemma filter_services_by_name_no_connector:
  assumes "connector v = None" and "replace_underscores k \<in> set names"
  shows "filter_services_by_name [(k, v)] names exclude_names = Inr [(k, v)]"
  using assms by (simp add: filter_services_by_name_def)

text \<open>
  C4. A service without a connector URL is to be kept if and only if its normalised name
  is in the include list and not in the exclude list. The branch of
  \<open>_filter_services_by_name\<close> for a service without connector tests the include list
  only, where the branch for a service with a URL and \<open>_filter_connectors_by_name\<close>
  test both lists: the service \<open>my_skill\<close> with include list \<open>["my-skill"]\<close> and exclude
  list \<open>["my-skill"]\<close> is kept, by the function and by the pipeline's \<open>filter_services\<close>.
  A service whose connector has no URL is dropped even when its name is included and
  not excluded.
\<close>

theorem filter_services_by_name_ignores_exclude:
  "filter_services_by_name [(''my_skill'', \<lparr>connector = None, service_fields = []\<rparr>)]
      [''my-skill''] [''my-skill'']
     = Inr [(''my_skill'', \<lparr>connector = None, service_fields = []\<rparr>)]
   \<and> DreamPipeline_filter_services example_unfiltered (Some [''my-skill'']) (Some [''my-skill''])
        False
     = Inr (example_unfiltered, example_unfiltered)
   \<and> filter_services_by_name
        [(''my_skill'',
          \<lparr>connector = Some \<lparr>url = None, connector_fields = []\<rparr>, service_fields = []\<rparr>)]
        [''my-skill''] []
     = Inr []"
  by (simp add: DreamPipeline_filter_services_def example_unfiltered_def
        raising_def or_default_def filter_connectors_by_name_def filter_services_by_name_def
        truthy_def host_selected_def replace_underscores_def)

text \<open>
  The only exception that the pipeline's \<open>filter_services\<close> raises is the \<open>ValueError\<close> of
  the URL parser.
\<close>

lemma parse_connector_url_error: "parse_connector_url u = Inl e \<Longrightarrow> e = ValueError"
  by (auto simp: parse_connector_url_def Let_def split: option.splits if_splits list.splits)

lemma connectors_loop_error:
  "connectors_loop xs names exclude_names acc = Inl e \<Longrightarrow> e = ValueError"
proof (induction xs arbitrary: acc)
  case Nil
  then show ?case by simp
next
  case (Cons x xs)
  obtain k v where x: "x = (k, v)" by (cases x)
  from Cons.prems show ?case
    unfolding x
    by (auto split: if_splits sum.splits dest: parse_connector_url_error Cons.IH)
qed

lemma services_loop_error:
  "services_loop xs names exclude_names acc = Inl e \<Longrightarrow> e = ValueError"
proof (induction xs arbitrary: acc)
  case Nil
  then show ?case by simp
next
  case (Cons x xs)
  obtain k v where x: "x = (k, v)" by (cases x)
  from Cons.prems show ?case
    unfolding x
    by (auto split: if_splits sum.splits option.splits dest: parse_connector_url_error Cons.IH)
qed

lemma raising_Inl:
  "raising m f = Inl e \<Longrightarrow> m = Inl e \<or> (\<exists>x. m = Inr x \<and> f x = Inl e)"
  by (cases m) (simp_all add: raising_def)

lemma DreamPipeline_filter_services_error:
  assumes "DreamPipeline_filter_services self include_names exclude_names inplace = Inl e"
  shows "e = ValueError"
  using assms unfolding DreamPipeline_filter_services_def Let_def
  by (auto dest!: raising_Inl
        dest: connectors_loop_error services_loop_error
        simp: filter_connectors_by_name_def filter_services_by_name_def)

lemma example_pipeline_filtered:
  "DreamPipeline_filter_services example_pipeline (Some [''ner'', ''dummy-skill'']) None False =
     Inr (example_pipeline,
       \<lparr>connectors = [],
        pipeline_services =
          \<lparr>last_chance_service =
             Some \<lparr>connector = None, service_fields = [(''tags'', RList [RStr ''last_chance''])]\<rparr>,
           timeout_service =
             Some \<lparr>connector = None, service_fields = [(''tags'', RList [RStr ''timeout''])]\<rparr>,
           bot_annotator_selector = None,
           post_annotators = [],
           annotators = [(''ner'', example_service ''http://ner:8021/ner'')],
           skill_selectors = [],
           skills = [(''dummy_skill'', \<lparr>connector = None, service_fields = []\<rparr>)],
           post_skill_selector_annotators = [],
           response_selectors = []\<rparr>\<rparr>)"
  by (simp add: DreamPipeline_filter_services_def example_pipeline_def example_service_def
        raising_def or_default_def filter_connectors_by_name_def filter_services_by_name_def
        truthy_def host_selected_def replace_underscores_def parse_connector_url_def split.simps)

text \<open>
  C9. Whenever the pipeline's \<open>filter_services\<close> returns a document, the three singleton
  fields \<open>last_chance_service\<close>, \<open>timeout_service\<close> and \<open>bot_annotator_selector\<close> of the
  result are those of the original, and the connectors and the six name-keyed
  categories of the result are what the two filter functions return for them.
\<close>

theorem filter_services_keeps_singletons:
  assumes "DreamPipeline_filter_services self include_names exclude_names inplace
             = Inr (self', value)"
  shows "last_chance_service (pipeline_services value) = last_chance_service (pipeline_services self)
       \<and> timeout_service (pipeline_services value) = timeout_service (pipeline_services self)
       \<and> bot_annotator_selector (pipeline_services value)
           = bot_annotator_selector (pipeline_services self)
       \<and> filter_connectors_by_name (connectors self)
            (or_default include_names []) (or_default exclude_names []) = Inr (connectors value)
       \<and> filter_services_by_name (post_annotators (pipeline_services self))
            (or_default include_names []) (or_default exclude_names [])
           = Inr (post_annotators (pipeline_services value))
       \<and> filter_services_by_name (annotators (pipeline_services self))
            (or_default include_names []) (or_default exclude_names [])
           = Inr (annotators (pipeline_services value))
       \<and> filter_services_by_name (skill_selectors (pipeline_services self))
            (or_default include_names []) (or_default exclude_names [])
           = Inr (skill_selectors (pipeline_services value))
       \<and> filter_services_by_name (skills (pipeline_services self))
            (or_default include_names []) (or_default exclude_names [])
           = Inr (skills (pipeline_services value))
       \<and> filter_services_by_name (post_skill_selector_annotators (pipeline_services self))
            (or_default include_names []) (or_default exclude_names [])
           = Inr (post_skill_selector_annotators (pipeline_services value))
       \<and> filter_services_by_name (response_selectors (pipeline_services self))
            (or_default include_names []) (or_default exclude_names [])
           = Inr (response_selectors (pipeline_services value))"
  using assms unfolding DreamPipeline_filter_services_def Let_def raising_def
  by (auto split: sum.splits if_splits)

theorem filter_services_keeps_singletons_witness:
  "(\<exists>value. DreamPipeline_filter_services example_pipeline (Some [''ner'', ''dummy-skill''])
               None False = Inr (example_pipeline, value)
      \<and> last_chance_service (pipeline_services value)
          = Some \<lparr>connector = None, service_fields = [(''tags'', RList [RStr ''last_chance''])]\<rparr>
      \<and> timeout_service (pipeline_services value)
          = Some \<lparr>connector = None, service_fields = [(''tags'', RList [RStr ''timeout''])]\<rparr>
      \<and> bot_annotator_selector (pipeline_services value) = None
      \<and> map fst (annotators (pipeline_services value)) = [''ner''])"
  using filter_services_keeps_singletons [OF example_pipeline_filtered] example_pipeline_filtered
  by (simp add: example_pipeline_def)

subsection \<open>Resolving the paths of a distribution\<close>

lemma check_dist_path_never_NotADirectoryError:
  "check_dist_path fs r \<noteq> Inl NotADirectoryError"
  by (auto simp: check_dist_path_def path_exists_def is_dir_def split: path_like.splits)

lemma resolve_all_paths_never_NotADirectoryError:
  "resolve_all_paths fs d n r \<noteq> Inl NotADirectoryError"
proof (cases "path_like_truthy d")
  case True
  show ?thesis
  proof (cases "resolve_name_and_dream_root (the d)")
    case (Inl e)
    then have "e = IndexError"
      by (auto simp: resolve_name_and_dream_root_def parents_nth_def Let_def split: if_splits)
    with Inl True show ?thesis by (simp add: resolve_all_paths_def)
  next
    case (Inr x)
    with True show ?thesis
      by (cases x) (simp add: resolve_all_paths_def check_dist_path_never_NotADirectoryError)
  qed
next
  case False
  then show ?thesis
    by (simp add: resolve_all_paths_def check_dist_path_never_NotADirectoryError)
qed

text \<open>
  C6. \<open>resolve_all_paths\<close> is to fail with \<open>NotADirectoryError\<close> when the resolved path is
  not an existing directory. The test of the code is \<open>not exists() and is_dir()\<close>, which
  no path satisfies: on a file system with nothing in it, the name \<open>dream\<close> and the root
  \<open>/home/dream\<close> resolve to a triple, and no call at all raises \<open>NotADirectoryError\<close>.
\<close>

theorem resolve_all_paths_accepts_missing_directory:
  "resolve_all_paths (\<lambda>p. None) None (Some ''dream'') (Some (Str ''/home/dream''))
     = Inr (P (PurePath True [''home'', ''dream'', ''assistant_dists'', ''dream'']),
            Some ''dream'', Some (Str ''/home/dream''))
   \<and> (\<forall>fs d n r. resolve_all_paths fs d n r \<noteq> Inl NotADirectoryError)"
  by (simp add: resolve_all_paths_never_NotADirectoryError)
     (simp add: resolve_all_paths_def check_dist_path_def path_exists_def is_dir_def
        path_like_truthy_def truthy_def resolve_dist_path_def joinpath_def Path_of_str_def
        split.simps)

subsection \<open>The local document of \<open>create_local_yml\<close>\<close>

lemma map_of_filter_keys:
  "map_of (filter (\<lambda>(k, v). Q k) xs) n = (if Q n then map_of xs n else None)"
  by (induction xs) auto

lemma keys_filter_keys:
  "map fst (filter (\<lambda>(k, v). Q k) xs) = filter Q (map fst xs)"
  by (induction xs) auto

text \<open>
  A sequence of assignments \<open>d[k] = f(k, v)\<close> over the items of a dictionary \<open>b\<close>: the
  entries of \<open>b\<close> win over those of \<open>d\<close>, and the keys stay distinct.
\<close>

lemma map_of_fold_update:
  "distinct (map fst b) \<Longrightarrow>
   map_of (fold (\<lambda>(k, v) d. AList.update k (f k v) d) b a) n
     = (case map_of b n of Some v \<Rightarrow> Some (f n v) | None \<Rightarrow> map_of a n)"
proof (induction b arbitrary: a)
  case Nil
  then show ?case by simp
next
  case (Cons x b)
  obtain k v where x: "x = (k, v)" by (cases x)
  from Cons.prems x have "map_of b k = None"
    by (simp add: map_of_eq_None_iff)
  with Cons x show ?case
    by (auto simp: update_conv' split: option.splits)
qed

lemma distinct_fold_update:
  "distinct (map fst a) \<Longrightarrow> distinct (map fst (fold (\<lambda>(k, v) d. AList.update k (f k v) d) b a))"
  by (induction b arbitrary: a) (auto simp: distinct_update)

lemma map_of_dict_merge:
  "distinct (map fst b) \<Longrightarrow>
   map_of (dict_merge a b) n = (case map_of b n of Some v \<Rightarrow> Some v | None \<Rightarrow> map_of a n)"
  unfolding dict_merge_def by (rule map_of_fold_update [where f = "\<lambda>k v. v"])

lemma distinct_dict_merge:
  "distinct (map fst a) \<Longrightarrow> distinct (map fst (dict_merge a b))"
  unfolding dict_merge_def by (rule distinct_fold_update [where f = "\<lambda>k v. v"])

lemma local_yml_step_services:
  "services (fold (local_yml_step lc ext dp sr) xs L)
     = fold (\<lambda>(k, v) d. AList.update k (local_yml_service lc ext dp sr k v) d) xs (services L)"
  by (induction xs arbitrary: L)
     (auto simp: local_yml_step_def YmlDreamConfig_add_service_def Let_def)

lemma local_yml_step_version:
  "version (fold (local_yml_step lc ext dp sr) xs L) = version L"
  by (induction xs arbitrary: L)
     (auto simp: local_yml_step_def YmlDreamConfig_add_service_def Let_def)

text \<open>
  The entry of a name in the local document: for a name of the extended list it is
  computed from the dev entry, for any other name from the proxy entry.
\<close>

lemma local_yml_config_lookup:
  assumes dev: "distinct (map fst (services dev))"
    and proxy: "distinct (map fst (services proxy))"
  shows "map_of (services (local_yml_config lc ver dev proxy svcs dp sr)) n
     = (if n \<in> set (svcs @ [''agent'', ''mongo''])
        then map_option (local_yml_service lc (svcs @ [''agent'', ''mongo'']) dp sr n)
               (map_of (services dev) n)
        else map_option (local_yml_service lc (svcs @ [''agent'', ''mongo'']) dp sr n)
               (map_of (services proxy) n))"
proof -
  let ?ext = "svcs @ [''agent'', ''mongo'']"
  let ?devp = "filter (\<lambda>(k, v). k \<in> set ?ext) (services dev)"
  let ?proxyp = "filter (\<lambda>(k, v). k \<notin> set ?ext) (services proxy)"
  have ext: "or_default (Some ?ext) d = ?ext" for d :: "string list"
    by (simp add: or_default_def)
  have devp: "services (snd (YmlDreamConfig_filter_services dev (Some ?ext) None False)) = ?devp"
    by (simp add: YmlDreamConfig_filter_services_def ext or_default_simps Let_def)
  have proxyp:
    "services (snd (YmlDreamConfig_filter_services proxy None (Some ?ext) False)) = ?proxyp"
    by (simp add: YmlDreamConfig_filter_services_def ext or_default_simps Let_def filter_all_keys
          del: set_map set_append)
  have d1: "distinct (map fst ?devp)" and d2: "distinct (map fst ?proxyp)"
    using dev proxy by (simp_all add: keys_filter_keys)
  have d3: "distinct (map fst (dict_merge ?devp ?proxyp))"
    using d1 by (rule distinct_dict_merge)
  have all: "map_of (dict_merge ?devp ?proxyp) n
      = (if n \<in> set ?ext then map_of (services dev) n else map_of (services proxy) n)"
    by (simp add: map_of_dict_merge [OF d2] map_of_filter_keys split: option.splits
          del: set_append)
  have "services (local_yml_config lc ver dev proxy svcs dp sr)
      = fold (\<lambda>(k, v) d. AList.update k (local_yml_service lc ?ext dp sr k v) d)
          (dict_merge ?devp ?proxyp) ?proxyp"
    unfolding local_yml_config_def Let_def devp proxyp local_yml_step_services by simp
  then have "map_of (services (local_yml_config lc ver dev proxy svcs dp sr)) n
      = (case map_of (dict_merge ?devp ?proxyp) n of
           Some v \<Rightarrow> Some (local_yml_service lc ?ext dp sr n v)
         | None \<Rightarrow> map_of ?proxyp n)"
    by (simp only: map_of_fold_update [OF d3])
  also have "\<dots> = (if n \<in> set ?ext
        then map_option (local_yml_service lc ?ext dp sr n) (map_of (services dev) n)
        else map_option (local_yml_service lc ?ext dp sr n) (map_of (services proxy) n))"
    unfolding all by (simp add: map_of_filter_keys split: option.splits del: set_append)
  finally show ?thesis .
qed


lemma joinpath_file_name:
  "joinpath p ''local.yml'' = PurePath (anchored p) (components p @ [''local.yml''])"
  by (simp add: joinpath_def Path_of_str_def split.simps)

text \<open>
  \<open>create_local_yml\<close> writes the encoded local document to \<open>local.yml\<close> under the
  distribution path, when that path is a directory and \<open>local.yml\<close> is not one.
\<close>

lemma create_local_yml_writes_local_config:
  assumes "compose_dev self = Some dev" and "compose_proxy self = Some proxy"
    and "fs (dist_path self) = Some Dir"
    and "fs (joinpath (dist_path self) ''local.yml'') \<noteq> Some Dir"
  shows "create_local_yml lc ver to_raw encode self svcs dp sr fs
     = Inr (P (joinpath (dist_path self) ''local.yml''),
            fs(joinpath (dist_path self) ''local.yml''
                 \<mapsto> File (encode (to_raw (local_yml_config lc ver dev proxy svcs dp sr)))))"
proof -
  let ?p = "joinpath (dist_path self) ''local.yml''"
  have parent: "PurePath (anchored ?p) (butlast (components ?p)) = dist_path self"
    by (simp add: joinpath_file_name)
  have "write_text ModeW ?p content fs = Inr (fs(?p \<mapsto> File content))" for content
  proof (cases "fs ?p")
    case None
    with assms(3) parent show ?thesis by (simp add: write_text_def)
  next
    case (Some n)
    with assms(4) show ?thesis by (cases n) (simp_all add: write_text_def)
  qed
  with assms(1,2) show ?thesis
    by (simp add: create_local_yml_def to_dist_def dump_def)
qed

lemma example_distinct:
  "distinct (map fst (services example_dev))" "distinct (map fst (services example_proxy))"
  by (simp_all add: example_dev_def example_proxy_def)



text \<open>
  C3, as the code has it. The first statement of \<open>create_local_yml\<close> rebinds \<open>services\<close>
  to the list extended with \<open>agent\<close> and \<open>mongo\<close>, and the loop tests that list. With
  \<open>drop_ports=True\<close>, an entry is made a local container with \<open>ports\<close> cleared if and
  only if its name is in the extended list: the names of the argument list, \<open>agent\<close>
  and \<open>mongo\<close>; such an entry comes from the dev document. Every other entry comes
  from the proxy document and keeps its \<open>ports\<close>.
\<close>

theorem create_local_yml_clears_ports_of_extended_list:
  assumes "distinct (map fst (services dev))" and "distinct (map fst (services proxy))"
  shows "map_of (services (local_yml_config lc ver dev proxy svcs True sr)) n
     = (if n \<in> set svcs \<or> n = ''agent'' \<or> n = ''mongo''
        then map_option
               (\<lambda>s. if sr then (lc s)\<lparr>ports := None,
                                       deploy := Some \<lparr>mode = ''replicated'', replicas = 1\<rparr>\<rparr>
                    else (lc s)\<lparr>ports := None\<rparr>)
               (map_of (services dev) n)
        else map_option
               (\<lambda>s. if sr then s\<lparr>deploy := Some \<lparr>mode = ''replicated'', replicas = 1\<rparr>\<rparr> else s)
               (map_of (services proxy) n))"
  unfolding local_yml_config_lookup [OF assms]
  by (auto simp: local_yml_service_def intro!: arg_cong2 [where f = map_option])

theorem create_local_yml_clears_ports_of_extended_list_witness:
  "distinct (map fst (services example_dev)) \<and> distinct (map fst (services example_proxy))
   \<and> map_of (services (local_yml_config (\<lambda>c. c) ''3.7'' example_dev example_proxy [''a''] True True))
       ''mongo''
     = Some \<lparr>ports = None, deploy = Some \<lparr>mode = ''replicated'', replicas = 1\<rparr>,
             container_fields = []\<rparr>
   \<and> map_of (services (local_yml_config (\<lambda>c. c) ''3.7'' example_dev example_proxy [''a''] True True))
       ''b''
     = Some \<lparr>ports = Some [''8002:8002''], deploy = Some \<lparr>mode = ''replicated'', replicas = 1\<rparr>,
             container_fields = [(''command'', RStr ''proxy b'')]\<rparr>"
  using create_local_yml_clears_ports_of_extended_list
          [OF example_distinct, of "\<lambda>c. c" "''3.7''" "[''a'']" True "''mongo''"]
        create_local_yml_clears_ports_of_extended_list
          [OF example_distinct, of "\<lambda>c. c" "''3.7''" "[''a'']" True "''b''"]
  by (simp add: example_dev_def example_proxy_def)

text \<open>
  With the services argument \<open>["a"]\<close>, the name \<open>agent\<close> is not in the argument list and
  has ports in the dev document, and its entry in the local document has none.
\<close>

theorem create_local_yml_original_list_counterexample:
  "''agent'' \<notin> set [''a'']
   \<and> map_option ports (map_of (services example_dev) ''agent'') = Some (Some [''4242:4242''])
   \<and> map_option ports
        (map_of (services (local_yml_config (\<lambda>c. c) ''3.7'' example_dev example_proxy
                             [''a''] True True)) ''agent'')
     = Some None"
  by (simp add: local_yml_config_lookup [OF example_distinct] local_yml_service_def)
     (simp add: example_dev_def)

end
